theory Spec2Isabelle
  imports Main
begin

section \<open>Data model (types.ts)\<close>

text \<open>
  Numbers of the program are JavaScript numbers. The game only ever stores whole
  numbers in them (stat points, slot counters, day counters, list indices), so they are
  modelled as \<open>int\<close>; the special values NaN and the infinities are outside the model.
\<close>

datatype StatType =
    CONFIDENCE | WILL | WIT | GRACE | UTILITY | AWARENESS
  | VITALITY | FINANCE | SOCIAL_CLASS | BLUSH | FATIGUE | VULNERABILITY
  | MALE_GAZE | FEMALE_JUDGE | DANGER

datatype TimeSegment = PRE_DAWN | DAWN | MORNING | DAY | EVENING | NIGHT | POST_NIGHT

datatype ItemType =
  Top | Bottom | Footwear | Accessory | Underwear_Top | Underwear_Bottom | FullBody

record Item =
  itemId :: string
  itemName :: string
  itemType :: ItemType
  basePrice :: int
  itemStats :: "StatType \<rightharpoonup> int"
  description :: string
  tags :: "string list"

text \<open>
  The \<open>equipped\<close> object: one optional item per slot. \<open>None\<close> stands for both
  \<open>null\<close> and an absent key, which the code never tells apart (it only tests
  truthiness). The field \<open>top\<close> is written \<open>topSlot\<close>.
\<close>

record Equipped =
  topSlot :: "Item option"
  bottom :: "Item option"
  footwear :: "Item option"
  underwearTop :: "Item option"
  underwearBottom :: "Item option"
  accessory :: "Item option"
  fullBody :: "Item option"

record GameTime =
  day :: int
  segment :: TimeSegment
  slotsUsed :: int

datatype Role = User | Model

text \<open>
  A history entry; its field \<open>text\<close> is written \<open>msgText\<close>. The type says
  \<open>string\<close>, but the turn handler can store \<open>undefined\<close> there (the narrative of
  an answer that has no such field), which is \<open>None\<close>.
\<close>

record HistoryEntry =
  role :: Role
  msgText :: "string option"
  retracted :: "bool option"

record Relationship =
  trust :: int
  attraction :: int
  familiarity :: int
  isFavorite :: "bool option"

datatype Intensity = Light | Full

record GameConfig =
  nsfw :: bool
  intensity :: Intensity
  tutorial :: bool
  firstTimeEvents :: bool

text \<open>
  The state object. Its \<open>stats\<close> field is a JavaScript object: a state value holds
  the table itself, a live object holds a reference to it (see the store below), so
  the record is parametric in that field. The table has the fifteen keys of
  \<open>StatType\<close>; \<open>extraStats\<close> lists the own keys the stats object has besides those
  (none at the start; the stat-change loop can create some, each holding NaN).
\<close>

record 's GameStateOf =
  stats :: "'s"
  extraStats :: "string list"
  inventory :: "Item list"
  equipped :: Equipped
  time :: GameTime
  location :: string
  history :: "HistoryEntry list"
  npcRelationships :: "string \<rightharpoonup> Relationship"
  config :: "GameConfig option"

type_synonym GameState = "(StatType \<Rightarrow> int) GameStateOf"

text \<open>The player's intent; its field \<open>type\<close> is written \<open>intentType\<close>.\<close>

record Intent =
  intentType :: string
  manner :: string

section \<open>Time progression (utils/mechanics.ts, advanceTime)\<close>

text \<open>\<open>Object.values(TimeSegment)\<close>: the members in declaration order.\<close>

definition segments :: "TimeSegment list" where
  "segments = [PRE_DAWN, DAWN, MORNING, DAY, EVENING, NIGHT, POST_NIGHT]"

text \<open>\<open>Array.prototype.indexOf\<close>: the first position of the element, or \<open>-1\<close>.\<close>

fun indexOf :: "'a list \<Rightarrow> 'a \<Rightarrow> int" where
  "indexOf [] x = -1"
| "indexOf (y # ys) x =
     (if y = x then 0
      else (let r = indexOf ys x in if r < 0 then -1 else r + 1))"

text \<open>
  The result object \<open>{segment, slots, newDay}\<close>; its first two fields are written
  \<open>resSegment\<close> and \<open>resSlots\<close>, and the parameter \<open>slotsUsed\<close> of
  \<open>advanceTime\<close> is written \<open>used\<close>.
\<close>

record TimeResult =
  resSegment :: TimeSegment
  resSlots :: int
  newDay :: bool

definition advanceTime :: "TimeSegment \<Rightarrow> int \<Rightarrow> TimeResult" where
  "advanceTime currentSegment used =
     (let currentIndex = indexOf segments currentSegment in
      if currentSegment = PRE_DAWN then
        \<lparr>resSegment = DAWN, resSlots = 0, newDay = False\<rparr>
      else if currentSegment = POST_NIGHT then
        \<lparr>resSegment = PRE_DAWN, resSlots = 0, newDay = True\<rparr>
      else if used < 2 then
        \<lparr>resSegment = currentSegment, resSlots = used + 1, newDay = False\<rparr>
      else
        (let nextIndex = currentIndex + 1 in
         if nextIndex < int (length segments) then
           \<lparr>resSegment = segments ! nat nextIndex, resSlots = 0, newDay = False\<rparr>
         else
           \<lparr>resSegment = PRE_DAWN, resSlots = 0, newDay = True\<rparr>))"

text \<open>
  The clock update that both callers of \<open>advanceTime\<close> (\<open>processTurn\<close> and
  \<open>handleDevSlotClick\<close>) perform on \<open>gameState.time\<close>.
\<close>

definition advanceClock :: "GameTime \<Rightarrow> GameTime" where
  "advanceClock t =
     (let timeResult = advanceTime (segment t) (slotsUsed t) in
      \<lparr>day = (if newDay timeResult then day t + 1 else day t),
       segment = resSegment timeResult,
       slotsUsed = resSlots timeResult\<rparr>)"

text \<open>The two transitional segments carry no action slot.\<close>

definition zeroSlot :: "TimeSegment \<Rightarrow> bool" where
  "zeroSlot s = (s = PRE_DAWN \<or> s = POST_NIGHT)"

definition slotsOk :: "GameTime \<Rightarrow> bool" where
  "slotsOk t =
     (if zeroSlot (segment t) then slotsUsed t = 0
      else 0 \<le> slotsUsed t \<and> slotsUsed t \<le> 2)"

section \<open>Equipment (App.tsx, getSlotFromType, handleEquip, handleDevForceEquip)\<close>

text \<open>The keys of the \<open>equipped\<close> object (\<open>keyof GameState['equipped']\<close>).\<close>

datatype SlotKey =
    K_top | K_bottom | K_footwear | K_underwearTop | K_underwearBottom
  | K_accessory | K_fullBody

text \<open>
  The \<open>switch\<close> of \<open>getSlotFromType\<close>. Its \<open>default\<close> branch (\<open>accessory\<close>)
  cannot be reached on the seven tags of \<open>Item['type']\<close>, so it has no equation here.
\<close>

fun getSlotFromType :: "ItemType \<Rightarrow> SlotKey" where
  "getSlotFromType Top = K_top"
| "getSlotFromType Bottom = K_bottom"
| "getSlotFromType Footwear = K_footwear"
| "getSlotFromType Accessory = K_accessory"
| "getSlotFromType Underwear_Top = K_underwearTop"
| "getSlotFromType Underwear_Bottom = K_underwearBottom"
| "getSlotFromType FullBody = K_fullBody"

text \<open>Reading and writing \<open>newEquipped[slotKey]\<close> with a computed key.\<close>

fun slotGet :: "Equipped \<Rightarrow> SlotKey \<Rightarrow> Item option" where
  "slotGet e K_top = topSlot e"
| "slotGet e K_bottom = bottom e"
| "slotGet e K_footwear = footwear e"
| "slotGet e K_underwearTop = underwearTop e"
| "slotGet e K_underwearBottom = underwearBottom e"
| "slotGet e K_accessory = accessory e"
| "slotGet e K_fullBody = fullBody e"

fun slotSet :: "Equipped \<Rightarrow> SlotKey \<Rightarrow> Item option \<Rightarrow> Equipped" where
  "slotSet e K_top v = e\<lparr>topSlot := v\<rparr>"
| "slotSet e K_bottom v = e\<lparr>bottom := v\<rparr>"
| "slotSet e K_footwear v = e\<lparr>footwear := v\<rparr>"
| "slotSet e K_underwearTop v = e\<lparr>underwearTop := v\<rparr>"
| "slotSet e K_underwearBottom v = e\<lparr>underwearBottom := v\<rparr>"
| "slotSet e K_accessory v = e\<lparr>accessory := v\<rparr>"
| "slotSet e K_fullBody v = e\<lparr>fullBody := v\<rparr>"

text \<open>
  \<open>xs[index]\<close> for a JavaScript array: \<open>undefined\<close> (here \<open>None\<close>) outside the
  array, also for a negative index.
\<close>

definition arrayAt :: "'a list \<Rightarrow> int \<Rightarrow> 'a option" where
  "arrayAt xs i = (if 0 \<le> i \<and> i < int (length xs) then Some (xs ! nat i) else None)"

text \<open>
  The block \<open>if (newEquipped.k) { newInventory.push(newEquipped.k); newEquipped.k = null; }\<close>
  on the pair of working copies \<open>(newInventory, newEquipped)\<close>.
\<close>

definition displace :: "SlotKey \<Rightarrow> Item list \<times> Equipped \<Rightarrow> Item list \<times> Equipped" where
  "displace k w =
     (case slotGet (snd w) k of
        None \<Rightarrow> w
      | Some worn \<Rightarrow> (fst w @ [worn], slotSet (snd w) k None))"

text \<open>
  The generic swap at the end of both handlers: whatever is in the target slot is pushed
  to the inventory, then the slot takes the item.
\<close>

definition swapIn :: "SlotKey \<Rightarrow> Item \<Rightarrow> Item list \<times> Equipped \<Rightarrow> Item list \<times> Equipped" where
  "swapIn slotKey item w =
     (let currentlyEquipped = slotGet (snd w) slotKey;
          newInventory =
            (case currentlyEquipped of None \<Rightarrow> fst w | Some c \<Rightarrow> fst w @ [c])
      in (newInventory, slotSet (snd w) slotKey (Some item)))"

text \<open>
  \<open>handleEquip(index)\<close>. The handler reads the item from the state it closes over and
  then runs an updater on the state React holds; both are the same state \<open>gs\<close> here (no
  other update is pending). A missing item is the early \<open>return\<close>. The removal
  \<open>splice(index, 1)\<close> is \<open>take\<close> followed by \<open>drop\<close>.
\<close>

definition handleEquip :: "int \<Rightarrow> GameState \<Rightarrow> GameState" where
  "handleEquip index gs =
     (case arrayAt (inventory gs) index of
        None \<Rightarrow> gs
      | Some itemToEquip \<Rightarrow>
          (let slotKey = getSlotFromType (itemType itemToEquip);
               item = itemToEquip;
               w0 = (take (nat index) (inventory gs) @ drop (nat index + 1) (inventory gs),
                     equipped gs);
               w1 = (if itemType item = FullBody
                     then displace K_bottom (displace K_top w0) else w0);
               w2 = swapIn slotKey item w1
           in gs\<lparr>inventory := fst w2, equipped := snd w2\<rparr>))"

text \<open>
  \<open>handleDevForceEquip(item)\<close>: the developer panel's handler. The item comes from the
  catalogue, not from the inventory, and this handler has the block that clears
  \<open>fullBody\<close> for a \<open>Top\<close> or \<open>Bottom\<close> item.
\<close>

definition handleDevForceEquip :: "Item \<Rightarrow> GameState \<Rightarrow> GameState" where
  "handleDevForceEquip item gs =
     (let slotKey = getSlotFromType (itemType item);
          w0 = (inventory gs, equipped gs);
          w1 = (if itemType item = FullBody
                then displace K_bottom (displace K_top w0) else w0);
          w2 = (if itemType item = Top \<or> itemType item = Bottom
                then displace K_fullBody w1 else w1);
          w3 = swapIn slotKey item w2
      in gs\<lparr>inventory := fst w3, equipped := snd w3\<rparr>)"

text \<open>\<open>Object.values(equipped)\<close> and the number of slots holding an item.\<close>

definition slotValues :: "Equipped \<Rightarrow> Item option list" where
  "slotValues e =
     [topSlot e, bottom e, footwear e, underwearTop e, underwearBottom e,
      accessory e, fullBody e]"

definition occupied :: "Equipped \<Rightarrow> nat" where
  "occupied e = length (filter (\<lambda>v. v \<noteq> None) (slotValues e))"

definition itemCount :: "GameState \<Rightarrow> nat" where
  "itemCount gs = length (inventory gs) + occupied (equipped gs)"

section \<open>Turn mutation (App.tsx, processTurn: the response phase)\<close>

text \<open>
  The collaborator's answer, \<open>GameEngineResponse\<close>. It is parsed JSON: an object is
  the list of its entries (\<open>Object.entries\<close>), an optional field is an \<open>option\<close>, and
  the keys of \<open>statChanges\<close> are whatever strings the answer holds.
\<close>

record RelChange =
  trustChange :: "int option"
  attractionChange :: "int option"
  familiarityChange :: "int option"

record Updates =
  statChanges :: "(string \<times> int option) list option"
  relationshipChanges :: "(string \<times> RelChange) list option"
  moneyChange :: "int option"
  locationChange :: "string option"
  itemGained :: "string list option"
  itemLost :: "string list option"

text \<open>
  What \<open>JSON.parse\<close> returns is not checked against the interface: either field
  can be missing, and reading a missing field gives \<open>undefined\<close> (\<open>None\<close>). An
  answer has the expected shape when both fields are there.
\<close>

record GameEngineResponse =
  narrative :: "string option"
  updates :: "Updates option"

definition matchesSchema :: "GameEngineResponse \<Rightarrow> bool" where
  "matchesSchema r = (narrative r \<noteq> None \<and> updates r \<noteq> None)"

text \<open>
  The stat table is a \<open>Record<StatType, number>\<close>: it holds exactly the fifteen keys
  of the enumeration, whose string values are their names. \<open>statKeyOf\<close> finds the stat
  a key names.
\<close>

definition statNames :: "(string \<times> StatType) list" where
  "statNames =
     [(''CONFIDENCE'', CONFIDENCE), (''WILL'', WILL), (''WIT'', WIT), (''GRACE'', GRACE),
      (''UTILITY'', UTILITY), (''AWARENESS'', AWARENESS), (''VITALITY'', VITALITY),
      (''FINANCE'', FINANCE), (''SOCIAL_CLASS'', SOCIAL_CLASS), (''BLUSH'', BLUSH),
      (''FATIGUE'', FATIGUE), (''VULNERABILITY'', VULNERABILITY),
      (''MALE_GAZE'', MALE_GAZE), (''FEMALE_JUDGE'', FEMALE_JUDGE), (''DANGER'', DANGER)]"

definition statKeyOf :: "string \<Rightarrow> StatType option" where
  "statKeyOf key = map_of statNames key"

text \<open>\<open>Math.max(0, Math.min(100, x))\<close>.\<close>

definition clamp100 :: "int \<Rightarrow> int" where
  "clamp100 x = max 0 (min 100 x)"

text \<open>\<open>val || 0\<close> on an optional number.\<close>

definition orZero :: "int option \<Rightarrow> int" where
  "orZero v = (case v of None \<Rightarrow> 0 | Some n \<Rightarrow> n)"

text \<open>The truthiness test \<open>if (x)\<close> on an optional number: present and not 0.\<close>

definition truthyNum :: "int option \<Rightarrow> bool" where
  "truthyNum v = (case v of None \<Rightarrow> False | Some n \<Rightarrow> n \<noteq> 0)"

text \<open>
  The guard \<open>nextState.stats[statKey] !== undefined\<close> reads the key through the
  prototype chain, so it also passes on the names every object inherits from
  \<open>Object.prototype\<close>. These are the inherited names whose value is a function; on
  them the sum is a string, the clamp gives NaN, and the assignment creates an own key
  of that name holding NaN. (\<open>__proto__\<close> passes the guard too, but assigning a number
  to it is ignored, so it is not in the list.)
\<close>

definition inheritedNames :: "string list" where
  "inheritedNames =
     [''constructor'', ''hasOwnProperty'', ''isPrototypeOf'', ''propertyIsEnumerable'',
      ''toLocaleString'', ''toString'', ''valueOf'', ''__defineGetter__'',
      ''__defineSetter__'', ''__lookupGetter__'', ''__lookupSetter__'']"

text \<open>
  One round of the \<open>forEach\<close> over \<open>Object.entries(updates.statChanges)\<close>. A round
  writes one key: \<open>applyStatChange\<close> is the round on the fifteen declared entries, and
  \<open>applyStatChangeExtra\<close> is the same round on the other own keys of the stats
  object. There, a key that is already an own key passes the guard and is written
  again (no new key); an inherited name becomes a new own key; any other key fails the
  guard.
\<close>

definition applyStatChangeExtra :: "string \<times> int option \<Rightarrow> string list \<Rightarrow> string list" where
  "applyStatChangeExtra entry extras =
     (let key = fst entry in
      if statKeyOf key = None \<and> key \<in> set inheritedNames \<and> key \<notin> set extras
      then extras @ [key] else extras)"

definition applyStatChange :: "string \<times> int option \<Rightarrow> (StatType \<Rightarrow> int) \<Rightarrow> (StatType \<Rightarrow> int)" where
  "applyStatChange entry st =
     (case statKeyOf (fst entry) of
        None \<Rightarrow> st
      | Some statKey \<Rightarrow> st(statKey := clamp100 (st statKey + orZero (snd entry))))"

text \<open>One round of the \<open>forEach\<close> over \<open>Object.entries(updates.relationshipChanges)\<close>.\<close>

definition applyRelChange ::
  "string \<times> RelChange \<Rightarrow> (string \<rightharpoonup> Relationship) \<Rightarrow> (string \<rightharpoonup> Relationship)" where
  "applyRelChange entry rels =
     (let npc = fst entry; change = snd entry;
          rel0 = (case rels npc of
                    None \<Rightarrow> \<lparr>trust = 0, attraction = 0, familiarity = 0, isFavorite = None\<rparr>
                  | Some r \<Rightarrow> r);
          rel1 = (if truthyNum (trustChange change)
                  then rel0\<lparr>trust := clamp100 (trust rel0 + orZero (trustChange change))\<rparr>
                  else rel0);
          rel2 = (if truthyNum (attractionChange change)
                  then rel1\<lparr>attraction :=
                         clamp100 (attraction rel1 + orZero (attractionChange change))\<rparr>
                  else rel1);
          rel3 = (if truthyNum (familiarityChange change)
                  then rel2\<lparr>familiarity :=
                         clamp100 (familiarity rel2 + orZero (familiarityChange change))\<rparr>
                  else rel2)
      in rels(npc \<mapsto> rel3))"

text \<open>
  The body of \<open>if (updates) { ... }\<close> has four blocks, run in this order:
  stats, money, location, relationships. \<open>itemGained\<close> and \<open>itemLost\<close> are
  never read.
\<close>

text \<open>Block 1, \<open>if (updates.statChanges)\<close>, on the stat table.\<close>

definition statsBlock :: "Updates \<Rightarrow> (StatType \<Rightarrow> int) \<Rightarrow> (StatType \<Rightarrow> int)" where
  "statsBlock u st =
     (case statChanges u of None \<Rightarrow> st | Some entries \<Rightarrow> fold applyStatChange entries st)"

text \<open>Block 1 on the other own keys of the stats object.\<close>

definition extraBlock :: "Updates \<Rightarrow> string list \<Rightarrow> string list" where
  "extraBlock u extras =
     (case statChanges u of
        None \<Rightarrow> extras
      | Some entries \<Rightarrow> fold applyStatChangeExtra entries extras)"

text \<open>Block 2, \<open>if (updates.moneyChange) nextState.stats.FINANCE += ...\<close>.\<close>

definition moneyBlock :: "Updates \<Rightarrow> (StatType \<Rightarrow> int) \<Rightarrow> (StatType \<Rightarrow> int)" where
  "moneyBlock u st =
     (if truthyNum (moneyChange u)
      then st(FINANCE := st FINANCE + orZero (moneyChange u)) else st)"

text \<open>Block 3, \<open>if (updates.locationChange)\<close>: the empty string is falsy.\<close>

definition locationBlock :: "Updates \<Rightarrow> string \<Rightarrow> string" where
  "locationBlock u loc =
     (case locationChange u of None \<Rightarrow> loc | Some l \<Rightarrow> if l = [] then loc else l)"

text \<open>Block 4, \<open>if (updates.relationshipChanges)\<close>.\<close>

definition relationshipsBlock ::
  "Updates \<Rightarrow> (string \<rightharpoonup> Relationship) \<Rightarrow> (string \<rightharpoonup> Relationship)" where
  "relationshipsBlock u rels =
     (case relationshipChanges u of
        None \<Rightarrow> rels
      | Some entries \<Rightarrow> fold applyRelChange entries rels)"

definition applyUpdates :: "Updates \<Rightarrow> GameState \<Rightarrow> GameState" where
  "applyUpdates u gs =
     gs\<lparr>stats := moneyBlock u (statsBlock u (stats gs)),
        extraStats := extraBlock u (extraStats gs),
        location := locationBlock u (location gs),
        npcRelationships := relationshipsBlock u (npcRelationships gs)\<rparr>"

text \<open>
  The updater \<open>setGameState(current => ...)\<close> that ends a turn: the delta, when
  \<open>updates\<close> is truthy, and then the narrative entry. \<open>narrativeText\<close> is
  \<open>undefined\<close> (\<open>None\<close>) when the parsed answer has no \<open>narrative\<close>.
\<close>

definition commitResponse ::
  "Updates option \<Rightarrow> string option \<Rightarrow> GameState \<Rightarrow> GameState" where
  "commitResponse upd narrativeText current =
     (let nextState = (case upd of None \<Rightarrow> current | Some u \<Rightarrow> applyUpdates u current)
      in nextState\<lparr>history :=
           history nextState @ [\<lparr>role = Model, msgText = narrativeText, retracted = None\<rparr>]\<rparr>)"

text \<open>
  The response phase from the answer's text on. \<open>JSON.parse\<close> is a parameter:
  \<open>parse responseText = None\<close> is the \<open>try\<close> block throwing (the text is not
  JSON, or it is the JSON \<open>null\<close>, whose fields cannot be read), which the
  \<open>catch\<close> turns into the raw-text fallback with \<open>updates\<close> left \<open>null\<close>.
  Otherwise the two fields are taken as they are; nothing checks the shape.
\<close>

definition responsePhase ::
  "(string \<Rightarrow> GameEngineResponse option) \<Rightarrow> string \<Rightarrow> GameState \<Rightarrow> GameState" where
  "responsePhase parse responseText current =
     (case parse responseText of
        Some parsed \<Rightarrow> commitResponse (updates parsed) (narrative parsed) current
      | None \<Rightarrow> commitResponse None (Some responseText) current)"


section \<open>Snapshots and undo (App.tsx, processTurn and handleUndo)\<close>

text \<open>
  The store holds the stat tables of the live state objects, by reference. A spread copy
  \<open>{...obj}\<close> copies the reference, so the copy and the original share one table, and
  a write through either is a write to the store.
\<close>

type_synonym StatsRef = nat

type_synonym Store = "StatsRef \<Rightarrow> StatType \<Rightarrow> int"

type_synonym StateObj = "StatsRef GameStateOf"

text \<open>
  \<open>JSON.parse(JSON.stringify(obj))\<close>: the value of a live object, with its stat table
  read off the store at the moment the copy is made.
\<close>

definition deepCopy :: "Store \<Rightarrow> StateObj \<Rightarrow> GameState" where
  "deepCopy h obj =
     \<lparr>stats = h (stats obj), extraStats = extraStats obj, inventory = inventory obj,
      equipped = equipped obj, time = time obj, location = location obj,
      history = history obj, npcRelationships = npcRelationships obj,
      config = config obj\<rparr>"

text \<open>The text of the user's history entry: the intent, when there is one, in brackets.\<close>

definition userLine :: "Intent option \<Rightarrow> string \<Rightarrow> string" where
  "userLine intent textInput =
     (case intent of
        None \<Rightarrow> textInput
      | Some i \<Rightarrow> ''['' @ intentType i @ '' - '' @ manner i @ ''] '' @ textInput)"

text \<open>
  The synchronous part of \<open>processTurn\<close>, up to \<open>setGameState(newState)\<close>, on the live
  object \<open>gameState\<close>, the store and the undo stack. \<open>hasKey\<close> says whether an API key
  is set; without one the handler appends a notice and returns. Otherwise, in the order
  of the code:
  \<^item> \<open>setStateHistory(prev => [...prev, JSON.parse(JSON.stringify(gameState))])\<close>
    queues an updater. React runs a queued updater when it next renders, which is after
    this code has run, and the updater reads \<open>gameState\<close> then: its copy is taken from
    the store as this code leaves it.
  \<^item> \<open>tempState = { ...gameState }\<close> shares the stat table of \<open>gameState\<close>, so on a
    new day the writes to \<open>tempState.stats.VITALITY\<close> and \<open>tempState.stats.FATIGUE\<close>
    go to that table.
  \<^item> \<open>newState\<close> is \<open>tempState\<close> with the new clock and the user's entry.
\<close>

definition processTurnStart ::
  "bool \<Rightarrow> string \<Rightarrow> Intent option \<Rightarrow> StateObj \<Rightarrow> Store \<Rightarrow> GameState list
     \<Rightarrow> StateObj \<times> Store \<times> GameState list" where
  "processTurnStart hasKey textInput intent gameState h stateHistory =
     (if \<not> hasKey then
        (gameState\<lparr>history := history gameState
           @ [\<lparr>role = Model,
               msgText = Some ''System: Please enter a valid API Key in the Settings Menu to play.'',
               retracted = None\<rparr>]\<rparr>,
         h, stateHistory)
      else
        (let snapshotUpdater = (\<lambda>store prev. prev @ [deepCopy store gameState]);
             timeResult = advanceTime (segment (time gameState)) (slotsUsed (time gameState));
             tempState = gameState;
             h1 = (if newDay timeResult
                   then h(stats tempState :=
                           (h (stats tempState))
                             (VITALITY := min 100 (h (stats tempState) VITALITY + 50),
                              FATIGUE := 0))
                   else h);
             newState =
               tempState\<lparr>time :=
                           \<lparr>day = (if newDay timeResult then day (time gameState) + 1
                                   else day (time gameState)),
                            segment = resSegment timeResult,
                            slotsUsed = resSlots timeResult\<rparr>,
                         history := history gameState
                           @ [\<lparr>role = User, msgText = Some (userLine intent textInput),
                               retracted = None\<rparr>]\<rparr>
         in (newState, h1, snapshotUpdater h1 stateHistory)))"

definition retract :: "HistoryEntry \<Rightarrow> HistoryEntry" where
  "retract item = item\<lparr>retracted := Some True\<rparr>"

text \<open>
  \<open>handleUndo\<close>, on the stack, the busy flag and the current state; it returns the new
  current state and the new stack. The early \<open>return\<close> leaves both as they are.
\<close>

definition handleUndo ::
  "GameState list \<Rightarrow> bool \<Rightarrow> GameState \<Rightarrow> GameState \<times> GameState list" where
  "handleUndo stateHistory isProcessing gameState =
     (if length stateHistory = 0 \<or> isProcessing then (gameState, stateHistory)
      else
        (let previousState = stateHistory ! (length stateHistory - 1);
             newHistoryStack = take (length stateHistory - 1) stateHistory;
             prevHistoryLength = length (history previousState);
             retractedItems = map retract (drop prevHistoryLength (history gameState));
             restoredState =
               previousState\<lparr>history := history previousState @ retractedItems\<rparr>
         in (restoredState, newHistoryStack)))"

section \<open>Initial data (constants.ts)\<close>

definition INITIAL_STATS :: "StatType \<Rightarrow> int" where
  "INITIAL_STATS s =
     (case s of
        CONFIDENCE \<Rightarrow> 10 | WILL \<Rightarrow> 10 | WIT \<Rightarrow> 10 | GRACE \<Rightarrow> 10 | UTILITY \<Rightarrow> 10
      | AWARENESS \<Rightarrow> 10 | VITALITY \<Rightarrow> 100 | FINANCE \<Rightarrow> 100 | SOCIAL_CLASS \<Rightarrow> 0
      | BLUSH \<Rightarrow> 0 | FATIGUE \<Rightarrow> 0 | VULNERABILITY \<Rightarrow> 0 | MALE_GAZE \<Rightarrow> 0
      | FEMALE_JUDGE \<Rightarrow> 0 | DANGER \<Rightarrow> 0)"

text \<open>Two entries of \<open>ITEM_DATABASE\<close>.\<close>

definition silkBlouse :: Item where
  "silkBlouse =
     \<lparr>itemId = ''top_blouse_silk_01'', itemName = ''Silk Blouse'', itemType = Top,
      basePrice = 60,
      itemStats = [UTILITY \<mapsto> -3, SOCIAL_CLASS \<mapsto> 15, FEMALE_JUDGE \<mapsto> 8, MALE_GAZE \<mapsto> 3],
      description = ''Long-sleeved, high-collared blouse in delicate material.'',
      tags = [''Medium Class'', ''Feminine'', ''Professional'']\<rparr>"

definition sundress :: Item where
  "sundress =
     \<lparr>itemId = ''outfit_dress_sundress_01'', itemName = ''Flowery Sundress'',
      itemType = FullBody, basePrice = 50,
      itemStats = [UTILITY \<mapsto> -1, SOCIAL_CLASS \<mapsto> 5, MALE_GAZE \<mapsto> 8, AWARENESS \<mapsto> 10],
      description = ''A light, low-cut dress with a flowing skirt.'',
      tags = [''Medium Class'', ''Feminine'']\<rparr>"

definition noEquipment :: Equipped where
  "noEquipment =
     \<lparr>topSlot = None, bottom = None, footwear = None, underwearTop = None,
      underwearBottom = None, accessory = None, fullBody = None\<rparr>"

text \<open>
  A state for the examples: the stats, clock and location of \<open>INITIAL_GAME_STATE\<close>,
  nothing worn, nothing owned, no relationship and a one-line history.
\<close>

definition startState :: GameState where
  "startState =
     \<lparr>stats = INITIAL_STATS, extraStats = [], inventory = [], equipped = noEquipment,
      time = \<lparr>day = 0, segment = PRE_DAWN, slotsUsed = 0\<rparr>,
      location = ''home_lily_bedroom'',
      history = [\<lparr>role = Model, msgText = Some ''Welcome'', retracted = None\<rparr>],
      npcRelationships = Map.empty, config = None\<rparr>"

text \<open>The start state wearing the sundress and owning only the silk blouse.\<close>

definition dressedState :: GameState where
  "dressedState =
     startState\<lparr>inventory := [silkBlouse],
                equipped := noEquipment\<lparr>fullBody := Some sundress\<rparr>\<rparr>"

text \<open>A delta with every field absent, and deltas built from it.\<close>

definition noUpdates :: Updates where
  "noUpdates =
     \<lparr>statChanges = None, relationshipChanges = None, moneyChange = None,
      locationChange = None, itemGained = None, itemLost = None\<rparr>"



text \<open>The start state after a turn that paid 50 through \<open>moneyChange\<close>.\<close>

definition richState :: GameState where
  "richState =
     commitResponse (Some (noUpdates\<lparr>moneyChange := Some 50\<rparr>)) (Some ''You are paid.'')
       startState"



text \<open>
  Three answer texts: one of the expected shape, one that is JSON but has no
  \<open>narrative\<close>, and a line of prose, which is not JSON.
\<close>

definition goodText :: string where
  \<open>goodText = ''{"narrative":"You wait.","updates":{}}''\<close>

definition shapelessText :: string where
  \<open>shapelessText = ''{"updates":{"moneyChange":50}}''\<close>

definition proseText :: string where
  "proseText = ''The door creaks open.''"

text \<open>
  A stand-in for \<open>JSON.parse\<close> followed by the two field reads. It gives what they
  give on the three texts above, which are the only ones the examples use.
\<close>

definition sampleParse :: "string \<Rightarrow> GameEngineResponse option" where
  "sampleParse s =
     (if s = goodText then
        Some \<lparr>narrative = Some ''You wait.'', updates = Some noUpdates\<rparr>
      else if s = shapelessText then
        Some \<lparr>narrative = None, updates = Some (noUpdates\<lparr>moneyChange := Some 50\<rparr>)\<rparr>
      else None)"

text \<open>
  A turn taken at the end of a day. The live state object has its stat table at address
  0 of the store, with \<open>VITALITY\<close> 40 and \<open>FATIGUE\<close> 30, and its clock in the
  post-night segment. \<open>nightTurn\<close> is the start of the turn on an empty undo stack,
  \<open>nightAfter\<close> the state once the answer is committed, and \<open>nightUndone\<close> the
  result of undoing the turn.
\<close>

definition nightStore :: Store where
  "nightStore = (\<lambda>r. INITIAL_STATS(VITALITY := 40, FATIGUE := 30))"

definition nightObj :: StateObj where
  "nightObj =
     \<lparr>stats = 0, extraStats = [], inventory = [], equipped = noEquipment,
      time = \<lparr>day = 1, segment = POST_NIGHT, slotsUsed = 0\<rparr>,
      location = ''home_lily_bedroom'',
      history = [\<lparr>role = Model, msgText = Some ''Welcome'', retracted = None\<rparr>],
      npcRelationships = Map.empty, config = None\<rparr>"

definition nightTurn :: "StateObj \<times> Store \<times> GameState list" where
  "nightTurn = processTurnStart True ''Go to sleep'' None nightObj nightStore []"

definition nightAfter :: GameState where
  "nightAfter =
     responsePhase sampleParse goodText (deepCopy (fst (snd nightTurn)) (fst nightTurn))"

definition nightUndone :: "GameState \<times> GameState list" where
  "nightUndone = handleUndo (snd (snd nightTurn)) False nightAfter"

section \<open>Time progression: theorems\<close>

lemma indexOf_segments:
  "indexOf segments PRE_DAWN = 0" "indexOf segments DAWN = 1"
  "indexOf segments MORNING = 2" "indexOf segments DAY = 3"
  "indexOf segments EVENING = 4" "indexOf segments NIGHT = 5"
  "indexOf segments POST_NIGHT = 6"
  by (simp_all add: segments_def)

lemma length_segments: "length segments = 7"
  by (simp add: segments_def)

lemma advanceTime_normal_next:
  "advanceTime DAWN 2 = \<lparr>resSegment = MORNING, resSlots = 0, newDay = False\<rparr>"
  "advanceTime MORNING 2 = \<lparr>resSegment = DAY, resSlots = 0, newDay = False\<rparr>"
  "advanceTime DAY 2 = \<lparr>resSegment = EVENING, resSlots = 0, newDay = False\<rparr>"
  "advanceTime EVENING 2 = \<lparr>resSegment = NIGHT, resSlots = 0, newDay = False\<rparr>"
  "advanceTime NIGHT 2 = \<lparr>resSegment = POST_NIGHT, resSlots = 0, newDay = False\<rparr>"
  by (simp_all add: advanceTime_def indexOf_segments length_segments, simp_all add: segments_def)

text \<open>
  C4. \<open>advanceTime\<close> reports a new day exactly when it is called on the post-night
  segment, whatever the slot count; that call moves to pre-dawn. Every other call
  (leaving pre-dawn, staying in a normal segment, moving a normal segment on to its
  successor) reports no new day; in particular the fail-safe branch is never taken.
\<close>

theorem advanceTime_newDay_iff:
  "newDay (advanceTime seg used) = (seg = POST_NIGHT)
   \<and> resSegment (advanceTime POST_NIGHT used) = PRE_DAWN"
  by (cases seg)
     (simp_all add: advanceTime_def indexOf_segments length_segments Let_def)

theorem advanceTime_newDay_iff_witness:
  "newDay (advanceTime POST_NIGHT 0) \<and> \<not> newDay (advanceTime NIGHT 2)
   \<and> \<not> newDay (advanceTime PRE_DAWN 0) \<and> \<not> newDay (advanceTime DAY 1)"
  using advanceTime_newDay_iff [of POST_NIGHT 0] advanceTime_newDay_iff [of NIGHT 2]
    advanceTime_newDay_iff [of PRE_DAWN 0] advanceTime_newDay_iff [of DAY 1]
  by simp

lemma advanceClock_slotsOk: "slotsOk t \<Longrightarrow> slotsOk (advanceClock t)"
  by (cases "segment t")
     (auto simp add: slotsOk_def zeroSlot_def advanceClock_def advanceTime_def Let_def
        segments_def)

text \<open>
  C5. Start from any clock whose slot count is 0 and apply the clock update any number
  of times: in a normal segment the slot count is between 0 and 2, and in the pre-dawn
  and post-night segments it is exactly 0.
\<close>

theorem advance_sequence_slotsOk:
  assumes "slotsUsed t0 = 0"
  shows "slotsOk ((advanceClock ^^ n) t0)"
proof (induction n)
  case 0
  from assms show ?case by (simp add: slotsOk_def)
next
  case (Suc n)
  then show ?case by (simp add: advanceClock_slotsOk)
qed

theorem advance_sequence_slotsOk_witness:
  "slotsUsed \<lparr>day = 0, segment = PRE_DAWN, slotsUsed = 0\<rparr> = 0
   \<and> slotsOk ((advanceClock ^^ 5) \<lparr>day = 0, segment = PRE_DAWN, slotsUsed = 0\<rparr>)
   \<and> (advanceClock ^^ 5) \<lparr>day = 0, segment = PRE_DAWN, slotsUsed = 0\<rparr>
       = \<lparr>day = 0, segment = MORNING, slotsUsed = 1\<rparr>"
proof -
  have h: "slotsUsed \<lparr>day = 0, segment = PRE_DAWN, slotsUsed = 0\<rparr> = 0" by simp
  have e: "(advanceClock ^^ 5) \<lparr>day = 0, segment = PRE_DAWN, slotsUsed = 0\<rparr>
       = \<lparr>day = 0, segment = MORNING, slotsUsed = 1\<rparr>"
    by (simp add: eval_nat_numeral advanceClock_def advanceTime_def Let_def segments_def)
  from advance_sequence_slotsOk [OF h, of 5] h e show ?thesis by simp
qed

section \<open>Equipment: theorems\<close>

lemma occupied_slotSet:
  "occupied (slotSet e k v) + (if slotGet e k = None then 0 else 1)
     = occupied e + (if v = None then 0 else 1)"
  by (cases k) (simp_all add: occupied_def slotValues_def)

lemma displace_count:
  "length (fst (displace k w)) + occupied (snd (displace k w))
     = length (fst w) + occupied (snd w)"
  using occupied_slotSet [of "snd w" k None]
  by (auto simp add: displace_def split: option.splits)

lemma swapIn_count:
  "length (fst (swapIn k item w)) + occupied (snd (swapIn k item w))
     = Suc (length (fst w) + occupied (snd w))"
  using occupied_slotSet [of "snd w" k "Some item"]
  by (auto simp add: swapIn_def Let_def split: option.splits)

lemma arrayAt_Some:
  "arrayAt xs i = Some x \<Longrightarrow> 0 \<le> i \<and> nat i < length xs \<and> x = xs ! nat i"
  by (auto simp add: arrayAt_def split: if_splits)

lemma remove_length:
  "n < length xs \<Longrightarrow> Suc (length (take n xs @ drop (n + 1) xs)) = length xs"
  by simp

lemma handleEquip_dressedState:
  "handleEquip 0 dressedState =
     startState\<lparr>inventory := [],
                equipped := noEquipment\<lparr>topSlot := Some silkBlouse,
                                         fullBody := Some sundress\<rparr>\<rparr>"
  by (simp add: handleEquip_def dressedState_def startState_def arrayAt_def Let_def
        swapIn_def noEquipment_def silkBlouse_def)

text \<open>
  The developer handler keeps top/bottom and full-body garments apart in both
  directions: after it equips a \<open>Top\<close> or \<open>Bottom\<close> item, \<open>fullBody\<close> is empty and
  the garment that was there is the inventory's next entry.
\<close>

lemma handleDevForceEquip_clears_fullBody:
  assumes "itemType item = Top \<or> itemType item = Bottom"
  shows "fullBody (equipped (handleDevForceEquip item gs)) = None"
    and "fullBody (equipped gs) = Some worn \<Longrightarrow>
           take (Suc (length (inventory gs))) (inventory (handleDevForceEquip item gs))
             = inventory gs @ [worn]"
  using assms
  by (auto simp add: handleDevForceEquip_def Let_def swapIn_def displace_def
        split: option.splits)

text \<open>
  C1. The specification asks that equipping a \<open>Top\<close> or \<open>Bottom\<close> item from the
  inventory moves a worn full-body garment back to the inventory. \<open>handleEquip\<close> has
  no such step: from a state wearing the sundress with the silk blouse at index 0, it puts the
  blouse in \<open>top\<close>, leaves the sundress in \<open>fullBody\<close>, and the inventory ends up
  empty, so both slots are occupied at once.
\<close>

theorem handleEquip_keeps_fullBody:
  "itemType silkBlouse = Top
   \<and> fullBody (equipped dressedState) = Some sundress
   \<and> topSlot (equipped (handleEquip 0 dressedState)) = Some silkBlouse
   \<and> fullBody (equipped (handleEquip 0 dressedState)) = Some sundress
   \<and> inventory (handleEquip 0 dressedState) = []"
  by (simp add: handleEquip_dressedState)
     (simp add: dressedState_def silkBlouse_def noEquipment_def)

text \<open>
  C7. Equipping by inventory index keeps the number of items: the length of the
  inventory plus the number of occupied slots is the same before and after, for every
  state and every index (an index outside the inventory changes nothing).
\<close>

theorem handleEquip_conserves_items: "itemCount (handleEquip index gs) = itemCount gs"
proof (cases "arrayAt (inventory gs) index")
  case None
  then show ?thesis by (simp add: handleEquip_def)
next
  case (Some itemToEquip)
  then have n: "nat index < length (inventory gs)" by (simp add: arrayAt_Some)
  define w0 where
    "w0 = (take (nat index) (inventory gs) @ drop (nat index + 1) (inventory gs),
           equipped gs)"
  define w1 where
    "w1 = (if itemType itemToEquip = FullBody
           then displace K_bottom (displace K_top w0) else w0)"
  define w2 where "w2 = swapIn (getSlotFromType (itemType itemToEquip)) itemToEquip w1"
  have r: "handleEquip index gs = gs\<lparr>inventory := fst w2, equipped := snd w2\<rparr>"
    using Some by (simp add: handleEquip_def Let_def w0_def w1_def w2_def)
  have c0: "Suc (length (fst w0) + occupied (snd w0)) = itemCount gs"
    using remove_length [OF n] by (simp add: w0_def itemCount_def)
  have c1: "length (fst w1) + occupied (snd w1) = length (fst w0) + occupied (snd w0)"
    by (simp add: w1_def displace_count)
  have c2: "length (fst w2) + occupied (snd w2) = Suc (length (fst w1) + occupied (snd w1))"
    by (simp add: w2_def swapIn_count)
  show ?thesis using r c0 c1 c2 by (simp add: itemCount_def)
qed

theorem handleEquip_conserves_items_witness:
  "itemCount (handleEquip 0 dressedState) = 2 \<and> itemCount (handleEquip 7 dressedState) = 2"
proof -
  have "itemCount dressedState = 2"
    by (simp add: itemCount_def occupied_def slotValues_def dressedState_def
          startState_def noEquipment_def)
  then show ?thesis
    using handleEquip_conserves_items [of 0 dressedState]
      handleEquip_conserves_items [of 7 dressedState]
    by simp
qed



section \<open>Turn mutation: theorems\<close>

lemma statKeyOf_samples:
  "statKeyOf ''FINANCE'' = Some FINANCE" "statKeyOf ''VITALITY'' = Some VITALITY"
  "statKeyOf ''CONFIDENCE'' = Some CONFIDENCE" "statKeyOf ''LUCK'' = None"
  "statKeyOf ''toString'' = None"
  by (simp_all add: statKeyOf_def statNames_def)


lemma clamp100_idem: "clamp100 (clamp100 x) = clamp100 x"
  by (simp add: clamp100_def)





lemma applyStatChange_other:
  "statKeyOf (fst e) \<noteq> Some s \<Longrightarrow> applyStatChange e st s = st s"
  by (auto simp add: applyStatChange_def split: option.splits)

lemma applyStatChange_named:
  "statKeyOf (fst e) = Some s \<Longrightarrow> applyStatChange e st s = clamp100 (st s + orZero (snd e))"
  by (simp add: applyStatChange_def)

lemma fold_applyStatChange_other:
  "\<forall>e \<in> set es. statKeyOf (fst e) \<noteq> Some s \<Longrightarrow> fold applyStatChange es st s = st s"
  by (induction es arbitrary: st) (simp_all add: applyStatChange_other)

text \<open>A stat that some entry names ends the stats block between 0 and 100.\<close>

lemma fold_applyStatChange_named:
  "\<exists>e \<in> set es. statKeyOf (fst e) = Some s \<Longrightarrow>
     0 \<le> fold applyStatChange es st s \<and> fold applyStatChange es st s \<le> 100"
proof (induction es arbitrary: st)
  case Nil
  then show ?case by simp
next
  case (Cons e es)
  show ?case
  proof (cases "\<exists>e' \<in> set es. statKeyOf (fst e') = Some s")
    case True
    then show ?thesis using Cons.IH by simp
  next
    case False
    with Cons.prems have n: "statKeyOf (fst e) = Some s" by auto
    from False have "fold applyStatChange es (applyStatChange e st) s = applyStatChange e st s"
      by (simp add: fold_applyStatChange_other)
    with n show ?thesis by (simp add: applyStatChange_named clamp100_def)
  qed
qed

text \<open>When every entry naming the stat has delta 0, the block clamps the old value.\<close>

lemma fold_zero_entries:
  assumes "\<forall>e \<in> set es. statKeyOf (fst e) = Some s \<longrightarrow> orZero (snd e) = 0"
  shows "fold applyStatChange es st s =
           (if \<exists>e \<in> set es. statKeyOf (fst e) = Some s then clamp100 (st s) else st s)"
  using assms
proof (induction es arbitrary: st)
  case Nil
  then show ?case by simp
next
  case (Cons e es)
  then have ih: "fold applyStatChange es (applyStatChange e st) s =
           (if \<exists>e' \<in> set es. statKeyOf (fst e') = Some s
            then clamp100 (applyStatChange e st s) else applyStatChange e st s)"
    by simp
  show ?case
  proof (cases "statKeyOf (fst e) = Some s")
    case True
    with Cons.prems have "orZero (snd e) = 0" by simp
    with True have "applyStatChange e st s = clamp100 (st s)"
      by (simp add: applyStatChange_named)
    with ih True show ?thesis by (simp add: clamp100_idem)
  next
    case False
    then have "applyStatChange e st s = st s" by (rule applyStatChange_other)
    with ih False show ?thesis by simp
  qed
qed







lemma commitResponse_stats:
  "stats (commitResponse upd txt gs) =
     (case upd of None \<Rightarrow> stats gs | Some u \<Rightarrow> moneyBlock u (statsBlock u (stats gs)))"
  by (simp add: commitResponse_def applyUpdates_def split: option.splits)


lemma money_path_unclamped:
  "stats (commitResponse (Some (noUpdates\<lparr>moneyChange := Some m\<rparr>)) txt gs) FINANCE
     = stats gs FINANCE + m"
  by (simp add: commitResponse_stats moneyBlock_def statsBlock_def noUpdates_def
        truthyNum_def orZero_def)

lemma stat_path_clamped:
  "stats (commitResponse (Some (noUpdates\<lparr>statChanges := Some [(''FINANCE'', Some d)]\<rparr>)) txt gs)
     FINANCE = clamp100 (stats gs FINANCE + d)"
  by (simp add: commitResponse_stats moneyBlock_def statsBlock_def noUpdates_def
        truthyNum_def orZero_def applyStatChange_def statKeyOf_samples)

text \<open>
  C2. From a state with \<open>FINANCE = 100\<close>, the delta \<open>{moneyChange: -30}\<close> gives
  \<open>FINANCE = 70\<close>, and then the delta \<open>{statChanges: {FINANCE: -200}}\<close> gives
  \<open>FINANCE = 0\<close>. The two write paths differ: from any state, a money change \<open>m\<close>
  gives the old value plus \<open>m\<close> with no clamp, and a stat change \<open>d\<close> on \<open>FINANCE\<close>
  gives the sum clamped to the range from 0 to 100.
\<close>

theorem finance_write_paths_scenario:
  assumes "stats gs FINANCE = 100"
  shows "stats (commitResponse (Some (noUpdates\<lparr>moneyChange := Some (-30)\<rparr>)) t1 gs) FINANCE = 70
   \<and> stats (commitResponse (Some (noUpdates\<lparr>statChanges := Some [(''FINANCE'', Some (-200))]\<rparr>)) t2
              (commitResponse (Some (noUpdates\<lparr>moneyChange := Some (-30)\<rparr>)) t1 gs)) FINANCE = 0
   \<and> stats (commitResponse (Some (noUpdates\<lparr>moneyChange := Some m\<rparr>)) t3 g) FINANCE
        = stats g FINANCE + m
   \<and> stats (commitResponse (Some (noUpdates\<lparr>statChanges := Some [(''FINANCE'', Some d)]\<rparr>)) t4 g)
        FINANCE = max 0 (min 100 (stats g FINANCE + d))"
  using assms
  by (simp add: money_path_unclamped stat_path_clamped) (simp add: clamp100_def)

theorem finance_write_paths_scenario_witness:
  "stats startState FINANCE = 100
   \<and> stats (commitResponse (Some (noUpdates\<lparr>moneyChange := Some (-30)\<rparr>))
        (Some ''You buy a coat.'') startState) FINANCE = 70
   \<and> stats (commitResponse (Some (noUpdates\<lparr>statChanges := Some [(''FINANCE'', Some (-200))]\<rparr>))
        (Some ''You are robbed.'')
        (commitResponse (Some (noUpdates\<lparr>moneyChange := Some (-30)\<rparr>))
           (Some ''You buy a coat.'') startState)) FINANCE = 0"
proof -
  have h: "stats startState FINANCE = 100"
    by (simp add: startState_def INITIAL_STATS_def)
  from finance_write_paths_scenario
         [OF h, of "Some ''You buy a coat.''" "Some ''You are robbed.''"] h
  show ?thesis by simp
qed




text \<open>
  C8, as the code has it. When the parse step throws on the response text (the text is
  not JSON, or is the JSON \<open>null\<close>), the response phase appends the raw text,
  unchanged, as one model entry at the end of the history and applies no delta: stats
  (with \<open>FINANCE\<close>), location, relationships and inventory, and also equipment and
  time, are as before. When the text parses to an answer without \<open>updates\<close>, no delta
  is applied either.
\<close>

theorem parse_throw_fallback:
  assumes "parse responseText = None"
  shows "responsePhase parse responseText cur =
           cur\<lparr>history := history cur
                  @ [\<lparr>role = Model, msgText = Some responseText, retracted = None\<rparr>]\<rparr>
   \<and> stats (responsePhase parse responseText cur) = stats cur
   \<and> location (responsePhase parse responseText cur) = location cur
   \<and> npcRelationships (responsePhase parse responseText cur) = npcRelationships cur
   \<and> inventory (responsePhase parse responseText cur) = inventory cur
   \<and> equipped (responsePhase parse responseText cur) = equipped cur
   \<and> time (responsePhase parse responseText cur) = time cur
   \<and> (parse otherText = Some r \<and> updates r = None \<longrightarrow>
        stats (responsePhase parse otherText cur) = stats cur
        \<and> location (responsePhase parse otherText cur) = location cur
        \<and> npcRelationships (responsePhase parse otherText cur) = npcRelationships cur
        \<and> inventory (responsePhase parse otherText cur) = inventory cur)"
  using assms by (auto simp add: responsePhase_def commitResponse_def)

theorem parse_throw_fallback_witness:
  "sampleParse proseText = None
   \<and> history (responsePhase sampleParse proseText startState) =
       [\<lparr>role = Model, msgText = Some ''Welcome'', retracted = None\<rparr>,
        \<lparr>role = Model, msgText = Some ''The door creaks open.'', retracted = None\<rparr>]
   \<and> stats (responsePhase sampleParse proseText startState) = INITIAL_STATS"
proof -
  have h: "sampleParse proseText = None"
    by (simp add: sampleParse_def proseText_def goodText_def shapelessText_def)
  from parse_throw_fallback [of sampleParse proseText startState, OF h] h
  show ?thesis by (simp add: startState_def proseText_def)
qed

text \<open>
  The claim C8 as the specification words it fails on a text that is JSON but not of
  the expected shape. \<open>{"updates":{"moneyChange":50}}\<close> parses, has no \<open>narrative\<close>,
  and nothing checks that: the delta is applied (\<open>FINANCE\<close> goes from 100 to 150) and
  the entry appended to the history has the text \<open>undefined\<close>, not the raw text.
\<close>

theorem schema_mismatch_counterexample:
  "sampleParse shapelessText
     = Some \<lparr>narrative = None, updates = Some (noUpdates\<lparr>moneyChange := Some 50\<rparr>)\<rparr>
   \<and> \<not> matchesSchema \<lparr>narrative = None, updates = Some (noUpdates\<lparr>moneyChange := Some 50\<rparr>)\<rparr>
   \<and> last (history (responsePhase sampleParse shapelessText startState))
       = \<lparr>role = Model, msgText = None, retracted = None\<rparr>
   \<and> stats startState FINANCE = 100
   \<and> stats (responsePhase sampleParse shapelessText startState) FINANCE = 150"
proof -
  have p: "sampleParse shapelessText
     = Some \<lparr>narrative = None, updates = Some (noUpdates\<lparr>moneyChange := Some 50\<rparr>)\<rparr>"
    by (simp add: sampleParse_def goodText_def shapelessText_def)
  have f: "stats startState FINANCE = 100"
    by (simp add: startState_def INITIAL_STATS_def)
  have r: "responsePhase sampleParse shapelessText startState
             = commitResponse (Some (noUpdates\<lparr>moneyChange := Some 50\<rparr>)) None startState"
    by (simp add: responsePhase_def p)
  show ?thesis
    unfolding r
    by (simp add: p f money_path_unclamped matchesSchema_def)
       (simp add: commitResponse_def Let_def)
qed

text \<open>
  C9. A stat-change entry is never a no-op on a stat it names, even with delta 0. Take
  a delta whose \<open>statChanges\<close> has an entry whose key names the stat \<open>s\<close>. The
  stats block leaves \<open>s\<close> between 0 and 100, whatever it was before; if the entries
  naming \<open>s\<close> all have delta 0 (or none), it leaves the old value clamped to that
  range. Unless the money block then writes the same stat, this is the value of \<open>s\<close>
  in the committed state. So \<open>{statChanges: {FINANCE: 0}}\<close> lowers a \<open>FINANCE\<close> of
  150, reached through the money path, to 100.
\<close>

theorem zero_stat_change_clamps:
  assumes "statChanges u = Some es" and "(k, v) \<in> set es" and "statKeyOf k = Some s"
  shows "0 \<le> statsBlock u st s \<and> statsBlock u st s \<le> 100
   \<and> ((\<forall>e \<in> set es. statKeyOf (fst e) = Some s \<longrightarrow> orZero (snd e) = 0) \<longrightarrow>
        statsBlock u st s = max 0 (min 100 (st s)))
   \<and> (s \<noteq> FINANCE \<or> \<not> truthyNum (moneyChange u) \<longrightarrow>
        stats (commitResponse (Some u) txt gs) s = statsBlock u (stats gs) s)"
proof -
  have n: "\<exists>e \<in> set es. statKeyOf (fst e) = Some s"
    using assms(2,3) by force
  have e: "statsBlock u st s = fold applyStatChange es st s"
    using assms(1) by (simp add: statsBlock_def)
  have r: "0 \<le> fold applyStatChange es st s \<and> fold applyStatChange es st s \<le> 100"
    using n by (rule fold_applyStatChange_named)
  have z: "(\<forall>e \<in> set es. statKeyOf (fst e) = Some s \<longrightarrow> orZero (snd e) = 0) \<longrightarrow>
             fold applyStatChange es st s = max 0 (min 100 (st s))"
    using n by (simp add: fold_zero_entries clamp100_def)
  have m: "s \<noteq> FINANCE \<or> \<not> truthyNum (moneyChange u) \<longrightarrow>
             stats (commitResponse (Some u) txt gs) s = statsBlock u (stats gs) s"
    by (auto simp add: commitResponse_stats moneyBlock_def)
  from r z m show ?thesis unfolding e by simp
qed

theorem zero_stat_change_clamps_witness:
  "stats richState FINANCE = 150
   \<and> stats (commitResponse (Some (noUpdates\<lparr>statChanges := Some [(''FINANCE'', Some 0)]\<rparr>))
        (Some ''Nothing happens.'') richState) FINANCE = 100"
proof -
  have f: "stats richState FINANCE = 150"
    by (simp add: richState_def money_path_unclamped startState_def INITIAL_STATS_def)
  have a: "statChanges (noUpdates\<lparr>statChanges := Some [(''FINANCE'', Some 0)]\<rparr>)
             = Some [(''FINANCE'', Some 0)]" by simp
  have b: "(''FINANCE'', Some (0::int)) \<in> set [(''FINANCE'', Some 0)]" by simp
  have c: "\<not> truthyNum (moneyChange (noUpdates\<lparr>statChanges := Some [(''FINANCE'', Some 0)]\<rparr>))"
    by (simp add: noUpdates_def truthyNum_def)
  from zero_stat_change_clamps [OF a b statKeyOf_samples(1),
      of "stats richState" "Some ''Nothing happens.''" richState] f c
  show ?thesis by (simp add: orZero_def)
qed

section \<open>Snapshots and undo: theorems\<close>

text \<open>
  \<open>handleUndo\<close> itself restores the snapshot on top of the stack: every field is the
  snapshot's, and the history is the snapshot's followed by the later entries of the
  current history, each marked retracted.
\<close>

lemma handleUndo_top:
  "handleUndo (stack @ [S]) False S' =
     (S\<lparr>history := history S @ map retract (drop (length (history S)) (history S'))\<rparr>, stack)"
  by (simp add: handleUndo_def Let_def)

text \<open>
  The snapshot a turn pushes is the copy of \<open>gameState\<close> under the store the turn's
  start leaves behind. When the turn starts no new day the store is unchanged, and the
  snapshot is the state before the turn.
\<close>

lemma processTurnStart_snapshot:
  "snd (snd (processTurnStart True textInput intent gameState h stack))
     = stack @ [deepCopy (fst (snd (processTurnStart True textInput intent gameState h stack)))
                  gameState]"
  by (simp add: processTurnStart_def Let_def)

lemma newDay_only_post_night: "newDay (advanceTime seg used) = (seg = POST_NIGHT)"
  by (cases seg)
     (simp_all add: advanceTime_def indexOf_segments length_segments Let_def)

lemma processTurnStart_same_day:
  "segment (time gameState) \<noteq> POST_NIGHT \<Longrightarrow>
     snd (snd (processTurnStart True textInput intent gameState h stack))
       = stack @ [deepCopy h gameState]"
  using newDay_only_post_night [of "segment (time gameState)" "slotsUsed (time gameState)"]
  by (simp add: processTurnStart_def Let_def)

lemma nightTurn_value:
  "nightTurn =
     (nightObj\<lparr>time := \<lparr>day = 2, segment = PRE_DAWN, slotsUsed = 0\<rparr>,
               history := history nightObj
                 @ [\<lparr>role = User, msgText = Some ''Go to sleep'', retracted = None\<rparr>]\<rparr>,
      (\<lambda>r. INITIAL_STATS(VITALITY := 40, FATIGUE := 30))
        (0 := INITIAL_STATS(VITALITY := 90, FATIGUE := 0)),
      [deepCopy ((\<lambda>r. INITIAL_STATS(VITALITY := 40, FATIGUE := 30))
                  (0 := INITIAL_STATS(VITALITY := 90, FATIGUE := 0))) nightObj])"
  by (simp add: nightTurn_def processTurnStart_def advanceTime_def Let_def userLine_def
        nightStore_def, simp add: nightObj_def fun_eq_iff)

text \<open>
  C3. The specification asks that undoing a turn restores the state as it was before
  the turn. On a turn that starts a new day it does not: the new-day values of
  \<open>VITALITY\<close> and \<open>FATIGUE\<close> are written into the stat table of the state object
  before the queued snapshot copies it. Before the turn \<open>VITALITY\<close> is 40 and
  \<open>FATIGUE\<close> is 30; after the turn and its undo they are 90 and 0.
\<close>

theorem undo_after_new_day_turn:
  "segment (time nightObj) = POST_NIGHT
   \<and> stats (deepCopy nightStore nightObj) VITALITY = 40
   \<and> stats (deepCopy nightStore nightObj) FATIGUE = 30
   \<and> stats (fst nightUndone) VITALITY = 90
   \<and> stats (fst nightUndone) FATIGUE = 0
   \<and> snd nightUndone = []"
proof -
  have a: "segment (time nightObj) = POST_NIGHT
   \<and> stats (deepCopy nightStore nightObj) VITALITY = 40
   \<and> stats (deepCopy nightStore nightObj) FATIGUE = 30"
    by (simp add: nightObj_def nightStore_def deepCopy_def)
  have u: "nightUndone = handleUndo ([] @ [snd (snd nightTurn) ! 0]) False nightAfter"
    by (simp add: nightUndone_def nightTurn_value)
  have s: "stats (snd (snd nightTurn) ! 0) VITALITY = 90
           \<and> stats (snd (snd nightTurn) ! 0) FATIGUE = 0"
    by (simp add: nightTurn_value deepCopy_def nightObj_def)
  from a s show ?thesis unfolding u handleUndo_top by simp
qed

end
